theory Spec2Isabelle
  imports Complex_Main
begin

section \<open>Python values, exceptions and list indexing\<close>

text \<open>
  The simulation in \<^verbatim>\<open>main.py\<close> computes with Python floats. They are embedded as
  the real numbers: every arithmetic operation is exact, and the only run-time failures
  left are the two exceptions the code can raise, a list index out of range and a
  division by zero. Both are values of the result type \<open>py_error + 'a\<close>. Rounding
  and the non-finite floats (infinities, NaN) have no counterpart in this embedding.
\<close>

datatype py_error = IndexError | ZeroDivisionError | OverflowError | ValueError

definition bind_result :: "py_error + 'a \<Rightarrow> ('a \<Rightarrow> py_error + 'b) \<Rightarrow> py_error + 'b" where
  "bind_result r f = (case r of Inl e \<Rightarrow> Inl e | Inr v \<Rightarrow> f v)"

text \<open>\<^verbatim>\<open>xs[i]\<close>: a negative index counts from the end, anything outside raises.\<close>

definition py_index :: "'a list \<Rightarrow> int \<Rightarrow> py_error + 'a" where
  "py_index xs i =
     (if 0 \<le> i \<and> i < int (length xs) then Inr (xs ! nat i)
      else if i < 0 \<and> - int (length xs) \<le> i then Inr (xs ! nat (int (length xs) + i))
      else Inl IndexError)"

text \<open>\<^verbatim>\<open>a / b\<close> on floats raises when the divisor is zero.\<close>

definition py_truediv :: "real \<Rightarrow> real \<Rightarrow> py_error + real" where
  "py_truediv a b = (if b = 0 then Inl ZeroDivisionError else Inr (a / b))"

text \<open>\<^verbatim>\<open>int(x)\<close> truncates towards zero.\<close>

definition py_int :: "real \<Rightarrow> int" where
  "py_int x = (if 0 \<le> x then \<lfloor>x\<rfloor> else \<lceil>x\<rceil>)"

text \<open>\<^verbatim>\<open>range(n)\<close> yields \<open>0, ..., n - 1\<close>, and nothing when \<open>n \<le> 0\<close>.\<close>

definition py_range_count :: "int \<Rightarrow> nat" where
  "py_range_count n = nat n"


section \<open>Module state\<close>

text \<open>
  The module keeps its parameters and its measured series in global variables. The
  parameters are the record \<open>globals\<close>, the lists that \<^verbatim>\<open>updateGraphs\<close> rebuilds
  are the record \<open>series\<close>.
\<close>

record globals =
  referencedRevolutionsPerMinute :: real
  timeOfSimulation :: real
  timeOfSample :: real
  brakingMoment :: real
  loadMoment :: real
  momentOfInertia :: real
  constantOfElectromagneticMoment :: real
  Kp :: real
  Ki :: real
  Kd :: real
  Umax :: real
  Umin :: real

record series =
  timeOfSimulationList :: "real list"
  loadMomentList :: "real list"
  electromagneticMomentList :: "real list"
  adjustmentErrors :: "real list"
  voltagesList :: "real list"
  revolutionsList :: "real list"
  brakingMomentList :: "real list"

text \<open>The values the module assigns at import time (lines 13 to 32).\<close>

definition module_globals :: globals where
  "module_globals =
     \<lparr> referencedRevolutionsPerMinute = 3000,
       timeOfSimulation = 1000,
       timeOfSample = 0.1,
       brakingMoment = 0.2,
       loadMoment = 5,
       momentOfInertia = 1.2,
       constantOfElectromagneticMoment = 0.4,
       Kp = 0.007,
       Ki = 0.00015,
       Kd = 0.0015,
       Umax = 24,
       Umin = 0 \<rparr>"


section \<open>Calculations\<close>


definition calculateAdjustmentError :: "real \<Rightarrow> real \<Rightarrow> real" where
  "calculateAdjustmentError referenced current = referenced - current"

definition calculateVoltageOfRegulator :: "globals \<Rightarrow> real list \<Rightarrow> int \<Rightarrow> py_error + real" where
  "calculateVoltageOfRegulator g errorList iteration =
     bind_result (py_index errorList iteration) (\<lambda>e.
       let proportional = Kp g * e;
           integral = Ki g * sum_list errorList * timeOfSample g
       in bind_result
            (if iteration > 0
             then bind_result (py_index errorList iteration) (\<lambda>a.
                  bind_result (py_index errorList (iteration - 1)) (\<lambda>b.
                    py_truediv (a - b) (timeOfSample g)))
             else Inr 0)
            (\<lambda>derivative0.
               let derivative = Kd g * derivative0;
                   voltage = proportional + integral + derivative
               in Inr voltage))"

definition calculateElectromagneticMoment :: "real \<Rightarrow> real \<Rightarrow> real" where
  "calculateElectromagneticMoment constant currentVoltage = constant * currentVoltage"

definition calculateNormalizedVoltage :: "globals \<Rightarrow> real \<Rightarrow> real" where
  "calculateNormalizedVoltage g voltageOfRegulator =
     max (Umin g) (min (Umax g) voltageOfRegulator)"

definition convertToAngularVelocity :: "real \<Rightarrow> real" where
  "convertToAngularVelocity valueToBeConverted = valueToBeConverted * (2 * pi / 60)"

definition convertToRevolutionsPerMinute :: "real \<Rightarrow> real" where
  "convertToRevolutionsPerMinute valueToBeConverted = valueToBeConverted * (60 / (2 * pi))"

definition calculateRevolutions :: "globals \<Rightarrow> real \<Rightarrow> real \<Rightarrow> py_error + real" where
  "calculateRevolutions g latestRevolution latestElectromagneticMoment =
     (let omega = convertToAngularVelocity latestRevolution
      in bind_result
           (py_truediv (latestElectromagneticMoment - loadMoment g - brakingMoment g)
                       (momentOfInertia g))
           (\<lambda>acceleration.
              let newOmega = omega + timeOfSample g * acceleration
              in Inr (convertToRevolutionsPerMinute newOmega)))"


section \<open>The simulation of \<^verbatim>\<open>updateGraphs\<close>\<close>

text \<open>The lists as \<^verbatim>\<open>updateGraphs\<close> reinitialises them (lines 224 to 230).\<close>

definition initial_series :: "globals \<Rightarrow> series" where
  "initial_series g =
     \<lparr> timeOfSimulationList = [0],
       loadMomentList = [0],
       electromagneticMomentList = [0],
       adjustmentErrors = [referencedRevolutionsPerMinute g],
       voltagesList = [0],
       revolutionsList = [0],
       brakingMomentList = [brakingMoment g] \<rparr>"

text \<open>
  One pass through the body of the \<^verbatim>\<open>for\<close> loop (lines 234 to 255), for loop index
  \<open>i\<close>. Each list read goes through \<open>py_index\<close>, in the order of the source, and sees
  the appends made earlier in the same pass.
\<close>

definition loop_body :: "globals \<Rightarrow> series \<Rightarrow> nat \<Rightarrow> py_error + series" where
  "loop_body g s i =
     bind_result (py_index (timeOfSimulationList s) (int i)) (\<lambda>t.
       let s1 = s\<lparr>timeOfSimulationList := timeOfSimulationList s @ [t + timeOfSample g]\<rparr>
       in bind_result (calculateVoltageOfRegulator g (adjustmentErrors s1) (int i)) (\<lambda>raw.
       let voltage = calculateNormalizedVoltage g raw;
           s2 = s1\<lparr>voltagesList := voltagesList s1 @ [voltage]\<rparr>
       in bind_result (py_index (voltagesList s2) (int i)) (\<lambda>v.
       let electromagneticMoment =
             calculateElectromagneticMoment (constantOfElectromagneticMoment g) v;
           s3 = s2\<lparr>electromagneticMomentList :=
                     electromagneticMomentList s2 @ [electromagneticMoment]\<rparr>
       in bind_result (py_index (revolutionsList s3) (int i)) (\<lambda>r.
          bind_result (py_index (electromagneticMomentList s3) (int i)) (\<lambda>m.
          bind_result (calculateRevolutions g r m) (\<lambda>revolutions.
       let s4 = s3\<lparr>revolutionsList := revolutionsList s3 @ [revolutions]\<rparr>
       in bind_result (py_index (revolutionsList s4) (int i)) (\<lambda>r'.
       let adjustmentError =
             calculateAdjustmentError (referencedRevolutionsPerMinute g) r'
       in Inr (s4\<lparr>adjustmentErrors := adjustmentErrors s4 @ [adjustmentError],
                  loadMomentList := loadMomentList s4 @ [loadMoment g],
                  brakingMomentList := brakingMomentList s4 @ [brakingMoment g]\<rparr>))))))))"

text \<open>
  \<^verbatim>\<open>for i in range(n)\<close>: the passes \<open>0, ..., n - 1\<close> in order; an exception in one
  pass ends the loop.
\<close>

fun for_range :: "globals \<Rightarrow> nat \<Rightarrow> series \<Rightarrow> py_error + series" where
  "for_range g 0 s = Inr s"
| "for_range g (Suc n) s = bind_result (for_range g n s) (\<lambda>s'. loop_body g s' n)"

text \<open>The part of \<^verbatim>\<open>updateGraphs\<close> from the reinitialisation to the end of the loop.\<close>

definition simulation_loop :: "globals \<Rightarrow> py_error + series" where
  "simulation_loop g =
     bind_result (py_truediv (timeOfSimulation g) (timeOfSample g)) (\<lambda>q.
       for_range g (py_range_count (py_int q)) (initial_series g))"

text \<open>
  \<^verbatim>\<open>updateGraphs\<close> first stores the five slider values in the globals (lines 214
  to 219), then runs the simulation. The two figures it returns plot the lists of the
  resulting series, so the model returns the updated globals and the series.
\<close>

definition set_sliders :: "globals \<Rightarrow> real \<Rightarrow> real \<Rightarrow> real \<Rightarrow> real \<Rightarrow> real \<Rightarrow> globals" where
  "set_sliders g newLoadMoment newReferencedRPM newKp newKi newKd =
     g\<lparr>loadMoment := newLoadMoment,
       referencedRevolutionsPerMinute := newReferencedRPM,
       Kp := newKp, Ki := newKi, Kd := newKd\<rparr>"

definition updateGraphs ::
  "globals \<Rightarrow> real \<Rightarrow> real \<Rightarrow> real \<Rightarrow> real \<Rightarrow> real \<Rightarrow> py_error + (globals \<times> series)" where
  "updateGraphs g newLoadMoment newReferencedRPM newKp newKi newKd =
     (let g' = set_sliders g newLoadMoment newReferencedRPM newKp newKi newKd
      in bind_result (simulation_loop g') (\<lambda>s. Inr (g', s)))"


section \<open>Auxiliary notions for the proofs\<close>

text \<open>All seven series have \<open>k\<close> entries.\<close>

definition series_lengths :: "series \<Rightarrow> nat \<Rightarrow> bool" where
  "series_lengths s k \<longleftrightarrow>
     length (timeOfSimulationList s) = k \<and>
     length (voltagesList s) = k \<and>
     length (electromagneticMomentList s) = k \<and>
     length (revolutionsList s) = k \<and>
     length (adjustmentErrors s) = k \<and>
     length (loadMomentList s) = k \<and>
     length (brakingMomentList s) = k"

text \<open>
  The values that \<^verbatim>\<open>calculateVoltageOfRegulator\<close> and \<^verbatim>\<open>calculateRevolutions\<close>
  return when they raise nothing, and the series one pass of the loop leaves behind
  in that case. The lemmas \<open>pid_value_eq\<close>, \<open>plant_value_eq\<close> and \<open>loop_body_ok\<close>
  below relate them to the functions of the program.
\<close>

definition pid_value :: "globals \<Rightarrow> real list \<Rightarrow> nat \<Rightarrow> real" where
  "pid_value g errorList i =
     Kp g * errorList ! i
     + Ki g * timeOfSample g * sum_list errorList
     + (if i = 0 then 0
        else Kd g * (errorList ! i - errorList ! (i - 1)) / timeOfSample g)"

definition plant_value :: "globals \<Rightarrow> real \<Rightarrow> real \<Rightarrow> real" where
  "plant_value g r m =
     convertToRevolutionsPerMinute
       (convertToAngularVelocity r
        + timeOfSample g * ((m - loadMoment g - brakingMoment g) / momentOfInertia g))"

definition next_series :: "globals \<Rightarrow> series \<Rightarrow> nat \<Rightarrow> series" where
  "next_series g s i =
     \<lparr> timeOfSimulationList =
         timeOfSimulationList s @ [timeOfSimulationList s ! i + timeOfSample g],
       loadMomentList = loadMomentList s @ [loadMoment g],
       electromagneticMomentList =
         electromagneticMomentList s @
         [calculateElectromagneticMoment (constantOfElectromagneticMoment g)
            (voltagesList s ! i)],
       adjustmentErrors =
         adjustmentErrors s @
         [calculateAdjustmentError (referencedRevolutionsPerMinute g) (revolutionsList s ! i)],
       voltagesList =
         voltagesList s @ [calculateNormalizedVoltage g (pid_value g (adjustmentErrors s) i)],
       revolutionsList =
         revolutionsList s @
         [plant_value g (revolutionsList s ! i) (electromagneticMomentList s ! i)],
       brakingMomentList = brakingMomentList s @ [brakingMoment g] \<rparr>"

text \<open>The first \<open>k\<close> entries of every series.\<close>

definition take_series :: "nat \<Rightarrow> series \<Rightarrow> series" where
  "take_series k s =
     \<lparr> timeOfSimulationList = take k (timeOfSimulationList s),
       loadMomentList = take k (loadMomentList s),
       electromagneticMomentList = take k (electromagneticMomentList s),
       adjustmentErrors = take k (adjustmentErrors s),
       voltagesList = take k (voltagesList s),
       revolutionsList = take k (revolutionsList s),
       brakingMomentList = take k (brakingMomentList s) \<rparr>"

text \<open>
  The globals after \<^verbatim>\<open>updateGraphs\<close> has stored the initial slider values of the
  layout (lines 161 to 186): load moment 1, referenced speed 3000, \<open>Kp = 0.007\<close>,
  \<open>Ki = 0.00013\<close>, \<open>Kd = 0.0015\<close>.
\<close>

definition worked_scenario :: globals where
  "worked_scenario = set_sliders module_globals 1 3000 0.007 0.00013 0.0015"


section \<open>Exceptions and indexing\<close>

lemma bind_result_Inr [simp]: "bind_result (Inr v) f = f v"
  by (simp add: bind_result_def)

lemma bind_result_Inl [simp]: "bind_result (Inl e) f = Inl e"
  by (simp add: bind_result_def)

lemma bind_result_eq_Inr:
  "bind_result r f = Inr y \<longleftrightarrow> (\<exists>v. r = Inr v \<and> f v = Inr y)"
  by (cases r) simp_all

lemma py_index_nat: "i < length xs \<Longrightarrow> py_index xs (int i) = Inr (xs ! i)"
  by (simp add: py_index_def)

lemma py_index_append: "i < length xs \<Longrightarrow> py_index (xs @ ys) (int i) = Inr (xs ! i)"
  by (simp add: py_index_def nth_append)

lemma py_index_pred:
  "0 < i \<Longrightarrow> i < length xs \<Longrightarrow> py_index xs (int i - 1) = Inr (xs ! (i - 1))"
  by (simp add: py_index_def nat_diff_distrib')

lemma pid_law:
  assumes "i < length errorList" and "timeOfSample g \<noteq> 0"
  shows "calculateVoltageOfRegulator g errorList (int i) =
           Inr (Kp g * errorList ! i
                + Ki g * timeOfSample g * sum_list errorList
                + (if i = 0 then 0
                   else Kd g * (errorList ! i - errorList ! (i - 1)) / timeOfSample g))"
  using assms
  by (simp add: calculateVoltageOfRegulator_def py_index_nat py_index_pred py_truediv_def Let_def)

lemma calculateRevolutions_ok:
  "momentOfInertia g \<noteq> 0 \<Longrightarrow>
   calculateRevolutions g r m =
     Inr (convertToRevolutionsPerMinute
            (convertToAngularVelocity r
             + timeOfSample g * ((m - loadMoment g - brakingMoment g) / momentOfInertia g)))"
  by (simp add: calculateRevolutions_def py_truediv_def Let_def)

lemma pid_value_eq:
  assumes "i < length errorList" and "timeOfSample g \<noteq> 0"
  shows "calculateVoltageOfRegulator g errorList (int i) = Inr (pid_value g errorList i)"
  using assms by (simp add: pid_law pid_value_def)

lemma plant_value_eq:
  "momentOfInertia g \<noteq> 0 \<Longrightarrow> calculateRevolutions g r m = Inr (plant_value g r m)"
  by (simp add: calculateRevolutions_ok plant_value_def)

lemma calculateRevolutions_Inr:
  "calculateRevolutions g r m = Inr y \<Longrightarrow> momentOfInertia g \<noteq> 0"
  by (auto simp: calculateRevolutions_def py_truediv_def Let_def split: if_splits)

lemma loop_body_inertia:
  "loop_body g s i = Inr s' \<Longrightarrow> momentOfInertia g \<noteq> 0"
  by (auto simp: loop_body_def bind_result_eq_Inr Let_def dest: calculateRevolutions_Inr)


lemma loop_body_ok:
  assumes "series_lengths s (Suc i)" and "timeOfSample g \<noteq> 0" and "momentOfInertia g \<noteq> 0"
  shows "loop_body g s i = Inr (next_series g s i)"
  using assms
  by (cases s)
     (simp add: series_lengths_def loop_body_def next_series_def pid_value_eq plant_value_eq
      py_index_nat py_index_append nth_append Let_def)

lemma loop_body_next:
  assumes "loop_body g s i = Inr s'" and "series_lengths s (Suc i)" and "timeOfSample g \<noteq> 0"
  shows "s' = next_series g s i"
  using assms loop_body_ok [OF assms(2,3) loop_body_inertia [OF assms(1)]] by simp

lemma series_lengths_next:
  "series_lengths s k \<Longrightarrow> series_lengths (next_series g s i) (Suc k)"
  by (simp add: series_lengths_def next_series_def)

lemma series_lengths_initial: "series_lengths (initial_series g) (Suc 0)"
  by (simp add: series_lengths_def initial_series_def)

lemma take_series_next:
  "series_lengths s k \<Longrightarrow> j \<le> k \<Longrightarrow> take_series j (next_series g s i) = take_series j s"
  by (simp add: series_lengths_def next_series_def take_series_def)

lemma take_series_all: "series_lengths s k \<Longrightarrow> take_series k s = s"
  by (simp add: series_lengths_def take_series_def)

lemma for_range_lengths:
  "for_range g n (initial_series g) = Inr s \<Longrightarrow> timeOfSample g \<noteq> 0 \<Longrightarrow>
   series_lengths s (Suc n)"
proof (induction n arbitrary: s)
  case 0
  then show ?case using series_lengths_initial by auto
next
  case (Suc n)
  from Suc.prems(1) obtain s' where
    run: "for_range g n (initial_series g) = Inr s'" and body: "loop_body g s' n = Inr s"
    by (auto simp: bind_result_eq_Inr)
  have len: "series_lengths s' (Suc n)"
    using Suc.IH [OF run Suc.prems(2)] .
  show ?case
    using loop_body_next [OF body len Suc.prems(2)] series_lengths_next [OF len] by simp
qed

lemma for_range_total:
  assumes "timeOfSample g \<noteq> 0" and "momentOfInertia g \<noteq> 0"
  shows "\<exists>s. for_range g n (initial_series g) = Inr s"
proof (induction n)
  case 0
  show ?case by simp
next
  case (Suc n)
  then obtain s' where run: "for_range g n (initial_series g) = Inr s'" by blast
  have "series_lengths s' (Suc n)"
    using for_range_lengths [OF run assms(1)] .
  then have "loop_body g s' n = Inr (next_series g s' n)"
    using assms by (rule loop_body_ok)
  with run show ?case by simp
qed

lemma for_range_prefix:
  assumes "for_range g n (initial_series g) = Inr s" and "timeOfSample g \<noteq> 0" and "k \<le> n"
  shows "for_range g k (initial_series g) = Inr (take_series (Suc k) s)"
  using assms
proof (induction n arbitrary: s)
  case 0
  then show ?case
    using take_series_all [OF series_lengths_initial] by auto
next
  case (Suc n)
  from Suc.prems(1) obtain s' where
    run: "for_range g n (initial_series g) = Inr s'" and body: "loop_body g s' n = Inr s"
    by (auto simp: bind_result_eq_Inr)
  have len: "series_lengths s' (Suc n)"
    using for_range_lengths [OF run Suc.prems(2)] .
  have nxt: "s = next_series g s' n"
    using loop_body_next [OF body len Suc.prems(2)] .
  show ?case
  proof (cases "k = Suc n")
    case True
    have "series_lengths s (Suc (Suc n))"
      using nxt series_lengths_next [OF len] by simp
    then show ?thesis
      using True Suc.prems(1) take_series_all by metis
  next
    case False
    with Suc.prems(3) have kn: "k \<le> n" by simp
    then have "take_series (Suc k) s = take_series (Suc k) s'"
      using nxt take_series_next [OF len, of "Suc k"] by simp
    then show ?thesis
      using Suc.IH [OF run Suc.prems(2) kn] by simp
  qed
qed

lemma for_range_step:
  assumes "for_range g n (initial_series g) = Inr s" and "timeOfSample g \<noteq> 0" and "i < n"
  shows "take_series (Suc (Suc i)) s = next_series g (take_series (Suc i) s) i"
proof -
  have a: "for_range g i (initial_series g) = Inr (take_series (Suc i) s)"
    using for_range_prefix [OF assms(1,2), of i] assms(3) by simp
  have b: "for_range g (Suc i) (initial_series g) = Inr (take_series (Suc (Suc i)) s)"
    using for_range_prefix [OF assms(1,2), of "Suc i"] assms(3) by simp
  from a b have body: "loop_body g (take_series (Suc i) s) i = Inr (take_series (Suc (Suc i)) s)"
    by simp
  show ?thesis
    using loop_body_next [OF body for_range_lengths [OF a assms(2)] assms(2)] .
qed

lemma for_range_inertia:
  assumes "for_range g n (initial_series g) = Inr s" and "0 < n"
  shows "momentOfInertia g \<noteq> 0"
proof -
  from assms obtain m where "n = Suc m" by (cases n) auto
  with assms(1) obtain s' where "loop_body g s' m = Inr s"
    by (auto simp: bind_result_eq_Inr)
  then show ?thesis by (rule loop_body_inertia)
qed

lemma nth_of_take_snoc:
  assumes "take (Suc (Suc i)) xs = take (Suc i) xs @ [v]" and "Suc i < length xs"
  shows "xs ! Suc i = v"
proof -
  have "xs ! Suc i = take (Suc (Suc i)) xs ! Suc i" by simp
  also have "\<dots> = (take (Suc i) xs @ [v]) ! Suc i" by (simp only: assms(1))
  also have "\<dots> = v" using assms(2) by (simp add: nth_append)
  finally show ?thesis .
qed

lemma for_range_sample:
  assumes run: "for_range g n (initial_series g) = Inr s"
    and T: "timeOfSample g \<noteq> 0" and i: "i < n"
  shows "timeOfSimulationList s ! Suc i = timeOfSimulationList s ! i + timeOfSample g"
    and "voltagesList s ! Suc i =
           calculateNormalizedVoltage g (pid_value g (take (Suc i) (adjustmentErrors s)) i)"
    and "electromagneticMomentList s ! Suc i =
           calculateElectromagneticMoment (constantOfElectromagneticMoment g) (voltagesList s ! i)"
    and "revolutionsList s ! Suc i =
           plant_value g (revolutionsList s ! i) (electromagneticMomentList s ! i)"
    and "adjustmentErrors s ! Suc i =
           calculateAdjustmentError (referencedRevolutionsPerMinute g) (revolutionsList s ! i)"
    and "loadMomentList s ! Suc i = loadMoment g"
    and "brakingMomentList s ! Suc i = brakingMoment g"
proof -
  have st: "take_series (Suc (Suc i)) s = next_series g (take_series (Suc i) s) i"
    using for_range_step [OF run T i] .
  have len: "series_lengths s (Suc n)"
    using for_range_lengths [OF run T] .
  have "timeOfSimulationList (take_series (Suc (Suc i)) s) =
        timeOfSimulationList (next_series g (take_series (Suc i) s) i)"
    by (simp only: st)
  then show "timeOfSimulationList s ! Suc i = timeOfSimulationList s ! i + timeOfSample g"
    using len i
    by (intro nth_of_take_snoc) (simp_all add: take_series_def next_series_def series_lengths_def)
  have "voltagesList (take_series (Suc (Suc i)) s) =
        voltagesList (next_series g (take_series (Suc i) s) i)"
    by (simp only: st)
  then show "voltagesList s ! Suc i =
           calculateNormalizedVoltage g (pid_value g (take (Suc i) (adjustmentErrors s)) i)"
    using len i
    by (intro nth_of_take_snoc) (simp_all add: take_series_def next_series_def series_lengths_def)
  have "electromagneticMomentList (take_series (Suc (Suc i)) s) =
        electromagneticMomentList (next_series g (take_series (Suc i) s) i)"
    by (simp only: st)
  then show "electromagneticMomentList s ! Suc i =
           calculateElectromagneticMoment (constantOfElectromagneticMoment g) (voltagesList s ! i)"
    using len i
    by (intro nth_of_take_snoc) (simp_all add: take_series_def next_series_def series_lengths_def)
  have "revolutionsList (take_series (Suc (Suc i)) s) =
        revolutionsList (next_series g (take_series (Suc i) s) i)"
    by (simp only: st)
  then show "revolutionsList s ! Suc i =
           plant_value g (revolutionsList s ! i) (electromagneticMomentList s ! i)"
    using len i
    by (intro nth_of_take_snoc) (simp_all add: take_series_def next_series_def series_lengths_def)
  have "adjustmentErrors (take_series (Suc (Suc i)) s) =
        adjustmentErrors (next_series g (take_series (Suc i) s) i)"
    by (simp only: st)
  then show "adjustmentErrors s ! Suc i =
           calculateAdjustmentError (referencedRevolutionsPerMinute g) (revolutionsList s ! i)"
    using len i
    by (intro nth_of_take_snoc) (simp_all add: take_series_def next_series_def series_lengths_def)
  have "loadMomentList (take_series (Suc (Suc i)) s) =
        loadMomentList (next_series g (take_series (Suc i) s) i)"
    by (simp only: st)
  then show "loadMomentList s ! Suc i = loadMoment g"
    using len i
    by (intro nth_of_take_snoc) (simp_all add: take_series_def next_series_def series_lengths_def)
  have "brakingMomentList (take_series (Suc (Suc i)) s) =
        brakingMomentList (next_series g (take_series (Suc i) s) i)"
    by (simp only: st)
  then show "brakingMomentList s ! Suc i = brakingMoment g"
    using len i
    by (intro nth_of_take_snoc) (simp_all add: take_series_def next_series_def series_lengths_def)
qed

lemma for_range_seed:
  assumes run: "for_range g n (initial_series g) = Inr s" and T: "timeOfSample g \<noteq> 0"
  shows "take_series (Suc 0) s = initial_series g"
  using for_range_prefix [OF run T, of 0] by simp

lemma for_range_seed_values:
  assumes run: "for_range g n (initial_series g) = Inr s" and T: "timeOfSample g \<noteq> 0"
  shows "timeOfSimulationList s ! 0 = 0"
    and "voltagesList s ! 0 = 0"
    and "electromagneticMomentList s ! 0 = 0"
    and "revolutionsList s ! 0 = 0"
    and "adjustmentErrors s ! 0 = referencedRevolutionsPerMinute g"
    and "loadMomentList s ! 0 = 0"
    and "brakingMomentList s ! 0 = brakingMoment g"
proof -
  have seed: "take_series (Suc 0) s = initial_series g"
    using for_range_seed [OF run T] .
  have "timeOfSimulationList (take_series (Suc 0) s) ! 0 = timeOfSimulationList (initial_series g) ! 0"
    by (simp only: seed)
  then show "timeOfSimulationList s ! 0 = 0"
    by (simp add: take_series_def initial_series_def)
  have "voltagesList (take_series (Suc 0) s) ! 0 = voltagesList (initial_series g) ! 0"
    by (simp only: seed)
  then show "voltagesList s ! 0 = 0"
    by (simp add: take_series_def initial_series_def)
  have "electromagneticMomentList (take_series (Suc 0) s) ! 0 =
        electromagneticMomentList (initial_series g) ! 0"
    by (simp only: seed)
  then show "electromagneticMomentList s ! 0 = 0"
    by (simp add: take_series_def initial_series_def)
  have "revolutionsList (take_series (Suc 0) s) ! 0 = revolutionsList (initial_series g) ! 0"
    by (simp only: seed)
  then show "revolutionsList s ! 0 = 0"
    by (simp add: take_series_def initial_series_def)
  have "adjustmentErrors (take_series (Suc 0) s) ! 0 = adjustmentErrors (initial_series g) ! 0"
    by (simp only: seed)
  then show "adjustmentErrors s ! 0 = referencedRevolutionsPerMinute g"
    by (simp add: take_series_def initial_series_def)
  have "loadMomentList (take_series (Suc 0) s) ! 0 = loadMomentList (initial_series g) ! 0"
    by (simp only: seed)
  then show "loadMomentList s ! 0 = 0"
    by (simp add: take_series_def initial_series_def)
  have "brakingMomentList (take_series (Suc 0) s) ! 0 = brakingMomentList (initial_series g) ! 0"
    by (simp only: seed)
  then show "brakingMomentList s ! 0 = brakingMoment g"
    by (simp add: take_series_def initial_series_def)
qed

lemma py_range_count_py_int: "py_range_count (py_int q) = nat \<lfloor>q\<rfloor>"
  by (simp add: py_range_count_def py_int_def)

lemma simulation_loop_Inr:
  assumes "simulation_loop g = Inr s"
  shows "timeOfSample g \<noteq> 0"
    and "for_range g (nat \<lfloor>timeOfSimulation g / timeOfSample g\<rfloor>) (initial_series g) = Inr s"
  using assms
  by (auto simp: simulation_loop_def py_truediv_def py_range_count_py_int split: if_splits)

lemma updateGraphs_Inr:
  assumes "updateGraphs g l r kp ki kd = Inr (g', s)"
  shows "g' = set_sliders g l r kp ki kd" and "simulation_loop g' = Inr s"
  using assms
  by (auto simp: updateGraphs_def set_sliders_def Let_def bind_result_eq_Inr)

lemma updateGraphs_total:
  assumes "timeOfSample g \<noteq> 0" and "momentOfInertia g \<noteq> 0"
  shows "\<exists>s. updateGraphs g l r kp ki kd = Inr (set_sliders g l r kp ki kd, s)"
proof -
  let ?g = "set_sliders g l r kp ki kd"
  have "timeOfSample ?g \<noteq> 0" and "momentOfInertia ?g \<noteq> 0"
    using assms by (simp_all add: set_sliders_def)
  then obtain s where
    "for_range ?g (nat \<lfloor>timeOfSimulation ?g / timeOfSample ?g\<rfloor>) (initial_series ?g) = Inr s"
    using for_range_total by blast
  then have "simulation_loop ?g = Inr s"
    using \<open>timeOfSample ?g \<noteq> 0\<close>
    by (simp add: simulation_loop_def py_truediv_def py_range_count_py_int)
  then show ?thesis
    by (auto simp: updateGraphs_def set_sliders_def Let_def)
qed


section \<open>The control law\<close>

text \<open>
  Claim C2 (PID control law). For an error history and an index \<open>i\<close> inside it, with a
  positive sample period, \<^verbatim>\<open>calculateVoltageOfRegulator\<close> raises nothing and returns
  \<open>Kp * e[i] + Ki * T * (sum of the whole history) + D\<close>, where the derivative term
  \<open>D\<close> is \<open>0\<close> for \<open>i = 0\<close> and \<open>Kd * (e[i] - e[i - 1]) / T\<close> for \<open>i > 0\<close>. The sum runs
  over every entry of the list it is given, the seed included, and the value returned is
  this raw sum: the bounds \<open>Umin\<close> and \<open>Umax\<close> do not occur in it.
\<close>

theorem C2_pid_control_law:
  assumes "i < length errorHistory" and "0 < timeOfSample g"
  shows "calculateVoltageOfRegulator g errorHistory (int i) =
           Inr (Kp g * errorHistory ! i
                + Ki g * timeOfSample g * sum_list errorHistory
                + (if i = 0 then 0
                   else Kd g * (errorHistory ! i - errorHistory ! (i - 1)) / timeOfSample g))"
  using assms by (simp add: pid_law)

theorem C2_pid_control_law_witness:
  "(1::nat) < length [3000, 2990 :: real] \<and> 0 < timeOfSample module_globals \<and>
   calculateVoltageOfRegulator module_globals [3000, 2990] (int 1) = Inr 20.86985"
  using C2_pid_control_law [of 1 "[3000, 2990]" module_globals]
  by (simp add: module_globals_def)


section \<open>The iteration count\<close>



section \<open>Runs of \<^verbatim>\<open>updateGraphs\<close>\<close>

lemma updateGraphs_run:
  assumes "updateGraphs g l r kp ki kd = Inr (g', s)"
  shows "g' = set_sliders g l r kp ki kd"
    and "timeOfSample g' \<noteq> 0"
    and "for_range g' (nat \<lfloor>timeOfSimulation g' / timeOfSample g'\<rfloor>) (initial_series g') = Inr s"
    and "series_lengths s (Suc (nat \<lfloor>timeOfSimulation g' / timeOfSample g'\<rfloor>))"
proof -
  have sim: "simulation_loop g' = Inr s"
    using updateGraphs_Inr(2) [OF assms] .
  show "g' = set_sliders g l r kp ki kd"
    using updateGraphs_Inr(1) [OF assms] .
  show T: "timeOfSample g' \<noteq> 0"
    using simulation_loop_Inr(1) [OF sim] .
  show run: "for_range g' (nat \<lfloor>timeOfSimulation g' / timeOfSample g'\<rfloor>) (initial_series g') = Inr s"
    using simulation_loop_Inr(2) [OF sim] .
  show "series_lengths s (Suc (nat \<lfloor>timeOfSimulation g' / timeOfSample g'\<rfloor>))"
    using for_range_lengths [OF run T] .
qed

lemma worked_scenario_fields:
  "referencedRevolutionsPerMinute worked_scenario = 3000"
  "timeOfSimulation worked_scenario = 1000"
  "timeOfSample worked_scenario = 0.1"
  "brakingMoment worked_scenario = 0.2"
  "loadMoment worked_scenario = 1"
  "momentOfInertia worked_scenario = 1.2"
  "constantOfElectromagneticMoment worked_scenario = 0.4"
  "Kp worked_scenario = 0.007"
  "Ki worked_scenario = 0.00013"
  "Kd worked_scenario = 0.0015"
  "Umax worked_scenario = 24"
  "Umin worked_scenario = 0"
  by (simp_all add: worked_scenario_def set_sliders_def module_globals_def)

lemma default_run:
  "\<exists>s. updateGraphs module_globals 1 3000 0.007 0.00013 0.0015 = Inr (worked_scenario, s) \<and>
       for_range worked_scenario 10000 (initial_series worked_scenario) = Inr s \<and>
       series_lengths s 10001"
proof -
  obtain s where
    run: "updateGraphs module_globals 1 3000 0.007 0.00013 0.0015 = Inr (worked_scenario, s)"
    using updateGraphs_total [of module_globals 1 3000 "0.007" "0.00013" "0.0015"]
    by (auto simp: module_globals_def worked_scenario_def)
  have n: "nat \<lfloor>timeOfSimulation worked_scenario / timeOfSample worked_scenario\<rfloor> = 10000"
    by (simp add: worked_scenario_fields)
  have "for_range worked_scenario 10000 (initial_series worked_scenario) = Inr s"
    using updateGraphs_run(3) [OF run] by (simp only: n)
  moreover have "series_lengths s 10001"
    using updateGraphs_run(4) [OF run] by (simp only: n) simp
  ultimately show ?thesis
    using run by blast
qed

section \<open>The one-sample lag of the actuator\<close>

text \<open>
  Claim C1 (one-step actuator lag). In every run of \<^verbatim>\<open>updateGraphs\<close> that returns,
  for every sample index \<open>i\<close> of the loop, the torque appended at sample \<open>i\<close> (entry
  \<open>i + 1\<close> of the torque series, entry \<open>0\<close> being the seed) is the gain times entry
  \<open>i\<close> of the voltage series. That entry was stored before sample \<open>i\<close> appended its
  own voltage: it is the seed \<open>0\<close> for \<open>i = 0\<close>, and otherwise the clamped controller
  voltage of sample \<open>i - 1\<close>, computed from the first \<open>i\<close> errors. The voltage that
  sample \<open>i\<close> itself computes goes to entry \<open>i + 1\<close> of the voltage series, which the
  torque of sample \<open>i\<close> does not read.
\<close>

theorem C1_actuator_lag:
  assumes "updateGraphs g l r kp ki kd = Inr (g', s)"
    and "Suc i < length (electromagneticMomentList s)"
  shows "electromagneticMomentList s ! Suc i =
           constantOfElectromagneticMoment g' * voltagesList s ! i \<and>
         (i = 0 \<longrightarrow> voltagesList s ! i = 0) \<and>
         (0 < i \<longrightarrow>
            (\<exists>raw. calculateVoltageOfRegulator g' (take i (adjustmentErrors s)) (int (i - 1)) = Inr raw \<and>
                   voltagesList s ! i = calculateNormalizedVoltage g' raw)) \<and>
         (\<exists>raw. calculateVoltageOfRegulator g' (take (Suc i) (adjustmentErrors s)) (int i) = Inr raw \<and>
                voltagesList s ! Suc i = calculateNormalizedVoltage g' raw)"
proof -
  let ?n = "nat \<lfloor>timeOfSimulation g' / timeOfSample g'\<rfloor>"
  note T = updateGraphs_run(2) [OF assms(1)]
  note run = updateGraphs_run(3) [OF assms(1)]
  note len = updateGraphs_run(4) [OF assms(1)]
  have i: "i < ?n"
    using assms(2) len by (simp add: series_lengths_def)
  have errs: "length (adjustmentErrors s) = Suc ?n"
    using len by (simp add: series_lengths_def)
  have torque: "electromagneticMomentList s ! Suc i =
                  constantOfElectromagneticMoment g' * voltagesList s ! i"
    using for_range_sample(3) [OF run T i] by (simp add: calculateElectromagneticMoment_def)
  have seed: "i = 0 \<longrightarrow> voltagesList s ! i = 0"
    using for_range_seed_values(2) [OF run T] by simp
  have computed: "\<exists>raw. calculateVoltageOfRegulator g' (take (Suc j) (adjustmentErrors s)) (int j) = Inr raw \<and>
                voltagesList s ! Suc j = calculateNormalizedVoltage g' raw" if "j < ?n" for j
  proof -
    have "j < length (take (Suc j) (adjustmentErrors s))"
      using that errs by simp
    then have "calculateVoltageOfRegulator g' (take (Suc j) (adjustmentErrors s)) (int j) =
                 Inr (pid_value g' (take (Suc j) (adjustmentErrors s)) j)"
      using T by (rule pid_value_eq)
    then show ?thesis
      using for_range_sample(2) [OF run T that] by simp
  qed
  have prev: "0 < i \<longrightarrow>
            (\<exists>raw. calculateVoltageOfRegulator g' (take i (adjustmentErrors s)) (int (i - 1)) = Inr raw \<and>
                   voltagesList s ! i = calculateNormalizedVoltage g' raw)"
  proof
    assume "0 < i"
    then obtain j where j: "i = Suc j" by (cases i) auto
    with i have "j < ?n" by simp
    from computed [OF this] show "\<exists>raw. calculateVoltageOfRegulator g' (take i (adjustmentErrors s)) (int (i - 1)) = Inr raw \<and>
                   voltagesList s ! i = calculateNormalizedVoltage g' raw"
      using j by simp
  qed
  from torque seed prev computed [OF i] show ?thesis by blast
qed

theorem C1_actuator_lag_witness:
  "\<exists>g' s. updateGraphs module_globals 1 3000 0.007 0.00013 0.0015 = Inr (g', s) \<and>
          Suc 1 < length (electromagneticMomentList s) \<and>
          voltagesList s ! 1 = 21.039 \<and>
          electromagneticMomentList s ! Suc 1 = 8.4156 \<and>
          electromagneticMomentList s ! 1 = 0 \<and>
          electromagneticMomentList s ! 1 \<noteq> constantOfElectromagneticMoment g' * voltagesList s ! 1"
proof -
  obtain s where
    run: "updateGraphs module_globals 1 3000 0.007 0.00013 0.0015 = Inr (worked_scenario, s)"
    and loop: "for_range worked_scenario 10000 (initial_series worked_scenario) = Inr s"
    and len: "series_lengths s 10001"
    using default_run by blast
  have T: "timeOfSample worked_scenario \<noteq> 0"
    by (simp add: worked_scenario_fields)
  have idx: "Suc 1 < length (electromagneticMomentList s)"
    using len by (simp add: series_lengths_def)
  note c1 = C1_actuator_lag [OF run idx]
  have "adjustmentErrors s ! 0 = 3000"
    using for_range_seed_values(5) [OF loop T] by (simp add: worked_scenario_fields)
  moreover have "length (adjustmentErrors s) = 10001"
    using len by (simp add: series_lengths_def)
  ultimately have tk: "take 1 (adjustmentErrors s) = [3000]"
    by (cases "adjustmentErrors s") simp_all
  have "calculateVoltageOfRegulator worked_scenario [3000] 0 = Inr 21.039"
    using pid_law [of 0 "[3000]" worked_scenario] by (simp add: worked_scenario_fields)
  then have v: "voltagesList s ! 1 = 21.039"
    using c1 tk by (auto simp: calculateNormalizedVoltage_def worked_scenario_fields)
  have m2: "electromagneticMomentList s ! Suc 1 = 8.4156"
    using c1 v by (simp add: worked_scenario_fields)
  have "Suc 0 < length (electromagneticMomentList s)"
    using idx by simp
  then have m1: "electromagneticMomentList s ! 1 = 0"
    using C1_actuator_lag [OF run, of 0] by simp
  then have "electromagneticMomentList s ! 1 \<noteq>
               constantOfElectromagneticMoment worked_scenario * voltagesList s ! 1"
    using v by (simp add: worked_scenario_fields)
  with run idx v m2 m1 show ?thesis by blast
qed

section \<open>The tracking error\<close>


text \<open>
  Claim C3 (error-series update), as the code has it. In every run that returns, the
  error appended at sample \<open>i\<close> (entry \<open>i + 1\<close> of the error series) is the referenced
  speed minus entry \<open>i\<close> of the speed series: the speed stored before sample \<open>i\<close>
  appended its own, which is the seed \<open>0\<close> for \<open>i = 0\<close>. The speed that sample
  \<open>i\<close> computes, from entry \<open>i\<close> of the speed and of the torque series, becomes
  entry \<open>i + 1\<close> of the speed series and enters the error only at sample \<open>i + 1\<close>.
\<close>

theorem C3_error_uses_stored_speed:
  assumes "updateGraphs g l r kp ki kd = Inr (g', s)"
    and "Suc i < length (adjustmentErrors s)"
  shows "adjustmentErrors s ! Suc i =
           referencedRevolutionsPerMinute g' - revolutionsList s ! i \<and>
         (i = 0 \<longrightarrow> revolutionsList s ! i = 0) \<and>
         calculateRevolutions g' (revolutionsList s ! i) (electromagneticMomentList s ! i) =
           Inr (revolutionsList s ! Suc i)"
proof -
  let ?n = "nat \<lfloor>timeOfSimulation g' / timeOfSample g'\<rfloor>"
  note T = updateGraphs_run(2) [OF assms(1)]
  note run = updateGraphs_run(3) [OF assms(1)]
  note len = updateGraphs_run(4) [OF assms(1)]
  have i: "i < ?n"
    using assms(2) len by (simp add: series_lengths_def)
  then have "0 < ?n" by linarith
  then have J: "momentOfInertia g' \<noteq> 0"
    by (rule for_range_inertia [OF run])
  have "adjustmentErrors s ! Suc i = referencedRevolutionsPerMinute g' - revolutionsList s ! i"
    using for_range_sample(5) [OF run T i] by (simp add: calculateAdjustmentError_def)
  moreover have "i = 0 \<longrightarrow> revolutionsList s ! i = 0"
    using for_range_seed_values(4) [OF run T] by simp
  moreover have "calculateRevolutions g' (revolutionsList s ! i) (electromagneticMomentList s ! i) =
           Inr (revolutionsList s ! Suc i)"
    using for_range_sample(4) [OF run T i] plant_value_eq [OF J] by simp
  ultimately show ?thesis by blast
qed

lemma worked_first_speed:
  "plant_value worked_scenario 0 0 = - (3 / pi)"
  by (simp add: plant_value_def convertToRevolutionsPerMinute_def convertToAngularVelocity_def
      worked_scenario_fields)

lemma default_run_sample0:
  assumes "for_range worked_scenario 10000 (initial_series worked_scenario) = Inr s"
  shows "adjustmentErrors s ! 0 = 3000" and "adjustmentErrors s ! 1 = 3000"
    and "revolutionsList s ! 0 = 0" and "revolutionsList s ! 1 = - (3 / pi)"
    and "voltagesList s ! 0 = 0" and "electromagneticMomentList s ! 0 = 0"
    and "electromagneticMomentList s ! 1 = 0"
    and "loadMomentList s ! 0 = 0"
proof -
  have T: "timeOfSample worked_scenario \<noteq> 0"
    by (simp add: worked_scenario_fields)
  have z: "(0::nat) < 10000" by simp
  show e0: "adjustmentErrors s ! 0 = 3000"
    using for_range_seed_values(5) [OF assms T] by (simp add: worked_scenario_fields)
  show r0: "revolutionsList s ! 0 = 0"
    using for_range_seed_values(4) [OF assms T] .
  show v0: "voltagesList s ! 0 = 0"
    using for_range_seed_values(2) [OF assms T] .
  show m0: "electromagneticMomentList s ! 0 = 0"
    using for_range_seed_values(3) [OF assms T] .
  show "loadMomentList s ! 0 = 0"
    using for_range_seed_values(6) [OF assms T] .
  show "adjustmentErrors s ! 1 = 3000"
    using for_range_sample(5) [OF assms T z] r0
    by (simp add: calculateAdjustmentError_def worked_scenario_fields)
  show "revolutionsList s ! 1 = - (3 / pi)"
    using for_range_sample(4) [OF assms T z] r0 m0 worked_first_speed by simp
  show "electromagneticMomentList s ! 1 = 0"
    using for_range_sample(3) [OF assms T z] v0
    by (simp add: calculateElectromagneticMoment_def)
qed

theorem C3_error_uses_stored_speed_witness:
  "\<exists>g' s. updateGraphs module_globals 1 3000 0.007 0.00013 0.0015 = Inr (g', s) \<and>
          Suc 0 < length (adjustmentErrors s) \<and>
          adjustmentErrors s ! Suc 0 = 3000 \<and>
          revolutionsList s ! 0 = 0 \<and>
          calculateRevolutions g' 0 0 = Inr (revolutionsList s ! Suc 0)"
proof -
  obtain s where
    run: "updateGraphs module_globals 1 3000 0.007 0.00013 0.0015 = Inr (worked_scenario, s)"
    and loop: "for_range worked_scenario 10000 (initial_series worked_scenario) = Inr s"
    and len: "series_lengths s 10001"
    using default_run by blast
  have idx: "Suc 0 < length (adjustmentErrors s)"
    using len by (simp add: series_lengths_def)
  note c3 = C3_error_uses_stored_speed [OF run idx]
  have m0: "electromagneticMomentList s ! 0 = 0"
    using default_run_sample0(6) [OF loop] .
  have r0: "revolutionsList s ! 0 = 0"
    using c3 by simp
  have "adjustmentErrors s ! Suc 0 = 3000"
    using c3 r0 by (simp add: worked_scenario_fields)
  moreover have "calculateRevolutions worked_scenario 0 0 = Inr (revolutionsList s ! Suc 0)"
    using c3 r0 m0 by simp
  ultimately show ?thesis
    using run idx r0 by blast
qed

text \<open>
  The claim as stated, with the speed computed during sample \<open>i\<close>, fails at sample
  \<open>0\<close> of the run with the initial slider values: the error appended is
  \<open>3000 - 0\<close>, the new speed is \<open>- 3 / pi\<close>.
\<close>

theorem C3_error_of_new_speed_counterexample:
  "\<not> (\<forall>g' s i. updateGraphs module_globals 1 3000 0.007 0.00013 0.0015 = Inr (g', s) \<and>
                 Suc i < length (adjustmentErrors s) \<longrightarrow>
                 adjustmentErrors s ! Suc i =
                   referencedRevolutionsPerMinute g' - revolutionsList s ! Suc i)"
proof
  assume claim: "\<forall>g' s i. updateGraphs module_globals 1 3000 0.007 0.00013 0.0015 = Inr (g', s) \<and>
                 Suc i < length (adjustmentErrors s) \<longrightarrow>
                 adjustmentErrors s ! Suc i =
                   referencedRevolutionsPerMinute g' - revolutionsList s ! Suc i"
  obtain s where
    run: "updateGraphs module_globals 1 3000 0.007 0.00013 0.0015 = Inr (worked_scenario, s)"
    and loop: "for_range worked_scenario 10000 (initial_series worked_scenario) = Inr s"
    and len: "series_lengths s 10001"
    using default_run by blast
  have idx: "Suc 0 < length (adjustmentErrors s)"
    using len by (simp add: series_lengths_def)
  from claim run idx have
    "adjustmentErrors s ! Suc 0 =
       referencedRevolutionsPerMinute worked_scenario - revolutionsList s ! Suc 0"
    by blast
  then have "(3000::real) = 3000 - (- (3 / pi))"
    using default_run_sample0(2,4) [OF loop] by (simp add: worked_scenario_fields)
  then show False by simp
qed

section \<open>Saturation, series lengths and the display series\<close>

lemma nth_cases_Suc:
  assumes "P (xs ! 0)" and "\<And>j. Suc j < length xs \<Longrightarrow> P (xs ! Suc j)" and "x \<in> set xs"
  shows "P x"
proof -
  from assms(3) obtain k where k: "k < length xs" "x = xs ! k"
    by (auto simp: in_set_conv_nth)
  show ?thesis
  proof (cases k)
    case 0
    with k assms(1) show ?thesis by simp
  next
    case (Suc j)
    with k assms(2) [of j] show ?thesis by simp
  qed
qed

lemma calculateNormalizedVoltage_bounds:
  "Umin g \<le> Umax g \<Longrightarrow>
   Umin g \<le> calculateNormalizedVoltage g v \<and> calculateNormalizedVoltage g v \<le> Umax g"
  by (simp add: calculateNormalizedVoltage_def)

text \<open>
  Claim C5 (saturation bound). In every run that returns with \<open>Umin \<le> Umax\<close>, each
  voltage appended by a sample is the clamp \<open>max Umin (min Umax raw)\<close> of the raw
  controller voltage of that sample and lies in \<open>[Umin, Umax]\<close>. The seed entry is
  \<open>0\<close>, so when also \<open>Umin \<le> 0 \<le> Umax\<close> every entry of the voltage series lies in
  \<open>[Umin, Umax]\<close>.
\<close>

theorem C5_saturation_bound:
  assumes "updateGraphs g l r kp ki kd = Inr (g', s)" and "Umin g' \<le> Umax g'"
  shows "(\<forall>i. Suc i < length (voltagesList s) \<longrightarrow>
            (\<exists>raw. calculateVoltageOfRegulator g' (take (Suc i) (adjustmentErrors s)) (int i) = Inr raw \<and>
                   voltagesList s ! Suc i = max (Umin g') (min (Umax g') raw)) \<and>
            Umin g' \<le> voltagesList s ! Suc i \<and> voltagesList s ! Suc i \<le> Umax g') \<and>
         voltagesList s ! 0 = 0 \<and>
         (Umin g' \<le> 0 \<and> 0 \<le> Umax g' \<longrightarrow>
            (\<forall>v \<in> set (voltagesList s). Umin g' \<le> v \<and> v \<le> Umax g'))"
proof -
  let ?n = "nat \<lfloor>timeOfSimulation g' / timeOfSample g'\<rfloor>"
  note T = updateGraphs_run(2) [OF assms(1)]
  note run = updateGraphs_run(3) [OF assms(1)]
  note len = updateGraphs_run(4) [OF assms(1)]
  have errs: "length (adjustmentErrors s) = Suc ?n" and volts: "length (voltagesList s) = Suc ?n"
    using len by (simp_all add: series_lengths_def)
  have appended: "(\<exists>raw. calculateVoltageOfRegulator g' (take (Suc i) (adjustmentErrors s)) (int i) = Inr raw \<and>
                   voltagesList s ! Suc i = max (Umin g') (min (Umax g') raw)) \<and>
            Umin g' \<le> voltagesList s ! Suc i \<and> voltagesList s ! Suc i \<le> Umax g'"
    if "Suc i < length (voltagesList s)" for i
  proof -
    from that volts have i: "i < ?n" by simp
    have "i < length (take (Suc i) (adjustmentErrors s))"
      using i errs by simp
    then have raw: "calculateVoltageOfRegulator g' (take (Suc i) (adjustmentErrors s)) (int i) =
                 Inr (pid_value g' (take (Suc i) (adjustmentErrors s)) i)"
      using T by (rule pid_value_eq)
    have v: "voltagesList s ! Suc i =
               calculateNormalizedVoltage g' (pid_value g' (take (Suc i) (adjustmentErrors s)) i)"
      using for_range_sample(2) [OF run T i] .
    have "voltagesList s ! Suc i =
            max (Umin g') (min (Umax g') (pid_value g' (take (Suc i) (adjustmentErrors s)) i))"
      using v by (simp add: calculateNormalizedVoltage_def)
    with raw calculateNormalizedVoltage_bounds [OF assms(2)] v show ?thesis
      by simp
  qed
  have seed: "voltagesList s ! 0 = 0"
    using for_range_seed_values(2) [OF run T] .
  have "\<forall>v \<in> set (voltagesList s). Umin g' \<le> v \<and> v \<le> Umax g'"
    if zero: "Umin g' \<le> 0 \<and> 0 \<le> Umax g'"
  proof
    fix v assume "v \<in> set (voltagesList s)"
    then show "Umin g' \<le> v \<and> v \<le> Umax g'"
    proof (rule nth_cases_Suc [rotated 2])
      show "Umin g' \<le> voltagesList s ! 0 \<and> voltagesList s ! 0 \<le> Umax g'"
        using seed zero by simp
      show "Umin g' \<le> voltagesList s ! Suc j \<and> voltagesList s ! Suc j \<le> Umax g'"
        if "Suc j < length (voltagesList s)" for j
        using appended [OF that] by simp
    qed
  qed
  with appended seed show ?thesis by blast
qed

theorem C5_saturation_bound_witness:
  "\<exists>g' s. updateGraphs module_globals 1 3000 0.007 0.00013 0.0015 = Inr (g', s) \<and>
          Umin g' \<le> Umax g' \<and> length (voltagesList s) = 10001 \<and>
          (\<forall>v \<in> set (voltagesList s). 0 \<le> v \<and> v \<le> 24)"
proof -
  obtain s where
    run: "updateGraphs module_globals 1 3000 0.007 0.00013 0.0015 = Inr (worked_scenario, s)"
    and len: "series_lengths s 10001"
    using default_run by blast
  have bounds: "Umin worked_scenario \<le> Umax worked_scenario"
    by (simp add: worked_scenario_fields)
  have "\<forall>v \<in> set (voltagesList s). 0 \<le> v \<and> v \<le> 24"
    using C5_saturation_bound [OF run bounds] by (simp add: worked_scenario_fields)
  moreover have "length (voltagesList s) = 10001"
    using len by (simp add: series_lengths_def)
  ultimately show ?thesis
    using run bounds by blast
qed



text \<open>
  Claim C9 (display series), as the code has it. In every run that returns, every entry
  of the braking-moment series, the seed included, is the configured braking moment.
  Every entry of the load-moment series that a sample appends is the configured load
  moment (the slider value), but its seed entry at index \<open>0\<close> is \<open>0\<close>.
\<close>

theorem C9_display_series:
  assumes "updateGraphs g l r kp ki kd = Inr (g', s)"
  shows "(\<forall>x \<in> set (brakingMomentList s). x = brakingMoment g') \<and>
         brakingMoment g' = brakingMoment g \<and>
         loadMomentList s ! 0 = 0 \<and>
         (\<forall>i. Suc i < length (loadMomentList s) \<longrightarrow> loadMomentList s ! Suc i = loadMoment g') \<and>
         loadMoment g' = l"
proof -
  let ?n = "nat \<lfloor>timeOfSimulation g' / timeOfSample g'\<rfloor>"
  note T = updateGraphs_run(2) [OF assms(1)]
  note run = updateGraphs_run(3) [OF assms(1)]
  note len = updateGraphs_run(4) [OF assms(1)]
  have lens: "length (loadMomentList s) = Suc ?n" "length (brakingMomentList s) = Suc ?n"
    using len by (simp_all add: series_lengths_def)
  have braking: "\<forall>x \<in> set (brakingMomentList s). x = brakingMoment g'"
  proof
    fix x assume "x \<in> set (brakingMomentList s)"
    then show "x = brakingMoment g'"
    proof (rule nth_cases_Suc [rotated 2])
      show "brakingMomentList s ! 0 = brakingMoment g'"
        using for_range_seed_values(7) [OF run T] .
      show "brakingMomentList s ! Suc j = brakingMoment g'"
        if "Suc j < length (brakingMomentList s)" for j
        using for_range_sample(7) [OF run T, of j] that lens by simp
    qed
  qed
  have load: "\<forall>i. Suc i < length (loadMomentList s) \<longrightarrow> loadMomentList s ! Suc i = loadMoment g'"
    using for_range_sample(6) [OF run T] lens by simp
  have "loadMomentList s ! 0 = 0"
    using for_range_seed_values(6) [OF run T] .
  moreover have "brakingMoment g' = brakingMoment g" and "loadMoment g' = l"
    using updateGraphs_run(1) [OF assms(1)] by (simp_all add: set_sliders_def)
  ultimately show ?thesis
    using braking load by blast
qed

theorem C9_display_series_witness:
  "\<exists>g' s. updateGraphs module_globals 1 3000 0.007 0.00013 0.0015 = Inr (g', s) \<and>
          (\<forall>x \<in> set (brakingMomentList s). x = 0.2) \<and>
          loadMomentList s ! 0 = 0 \<and> loadMomentList s ! 1 = 1 \<and> loadMoment g' = 1"
proof -
  obtain s where
    run: "updateGraphs module_globals 1 3000 0.007 0.00013 0.0015 = Inr (worked_scenario, s)"
    and len: "series_lengths s 10001"
    using default_run by blast
  note c9 = C9_display_series [OF run]
  have "Suc 0 < length (loadMomentList s)"
    using len by (simp add: series_lengths_def)
  then have "loadMomentList s ! 1 = 1"
    using c9 by simp
  moreover have "\<forall>x \<in> set (brakingMomentList s). x = 0.2"
    using c9 by (simp add: worked_scenario_fields)
  moreover have "loadMomentList s ! 0 = 0" and "loadMoment worked_scenario = 1"
    using c9 by simp_all
  ultimately show ?thesis
    using run by blast
qed

text \<open>
  The claim as stated, with a load-moment series that is constant from index \<open>0\<close>
  on, fails for the run with the initial slider values: the seed is \<open>0\<close>, the
  configured load moment is \<open>1\<close>.
\<close>

theorem C9_load_seed_counterexample:
  "\<not> (\<forall>g' s. updateGraphs module_globals 1 3000 0.007 0.00013 0.0015 = Inr (g', s) \<longrightarrow>
               (\<forall>x \<in> set (loadMomentList s). x = loadMoment g') \<and>
               (\<forall>x \<in> set (brakingMomentList s). x = brakingMoment g'))"
proof
  assume claim: "\<forall>g' s. updateGraphs module_globals 1 3000 0.007 0.00013 0.0015 = Inr (g', s) \<longrightarrow>
               (\<forall>x \<in> set (loadMomentList s). x = loadMoment g') \<and>
               (\<forall>x \<in> set (brakingMomentList s). x = brakingMoment g')"
  obtain s where
    run: "updateGraphs module_globals 1 3000 0.007 0.00013 0.0015 = Inr (worked_scenario, s)"
    and loop: "for_range worked_scenario 10000 (initial_series worked_scenario) = Inr s"
    and len: "series_lengths s 10001"
    using default_run by blast
  have "0 < length (loadMomentList s)"
    using len by (simp add: series_lengths_def)
  then have "loadMomentList s ! 0 \<in> set (loadMomentList s)"
    by (rule nth_mem)
  with claim run have "loadMomentList s ! 0 = loadMoment worked_scenario"
    by blast
  then show False
    using default_run_sample0(8) [OF loop] by (simp add: worked_scenario_fields)
qed

section \<open>Zero controller gains\<close>








section \<open>The worked scenario\<close>

text \<open>
  The first speed of the scenario is \<open>- 3 / pi\<close>. To compare it with the decimal
  \<open>- 0.9549\<close>, \<open>pi\<close> is enclosed between \<open>3.14154\<close> and \<open>3.1416\<close>: the sine is
  monotone around \<open>pi / 6\<close>, where it is \<open>1 / 2\<close>, and its Maclaurin polynomial of
  degree 7 decides on which side of \<open>1 / 2\<close> the sine of a nearby decimal lies.
\<close>

lemma sum_below_nine:
  fixes f :: "nat \<Rightarrow> real"
  shows "(\<Sum>m<9. f m) = f 0 + f 1 + f 2 + f 3 + f 4 + f 5 + f 6 + f 7 + f 8"
  by (simp add: eval_nat_numeral)

lemma sin_coeff_values:
  "sin_coeff (Suc 0) = 1" "sin_coeff 2 = 0" "sin_coeff 3 = - 1 / 6"
  "sin_coeff 4 = 0" "sin_coeff 5 = 1 / 120" "sin_coeff 6 = 0" "sin_coeff 7 = - 1 / 5040"
  "sin_coeff 8 = 0"
  by (simp_all add: sin_coeff_def fact_numeral)

lemma sin_poly9:
  fixes x :: real
  shows "(\<Sum>m<9. sin_coeff m * x ^ m) = x - x ^ 3 / 6 + x ^ 5 / 120 - x ^ 7 / 5040"
  by (simp add: sum_below_nine sin_coeff_values)

lemma sin_near_poly:
  fixes x :: real
  shows "\<bar>sin x - (x - x ^ 3 / 6 + x ^ 5 / 120 - x ^ 7 / 5040)\<bar> \<le> \<bar>x\<bar> ^ 9 / 362880"
proof -
  have f: "fact 9 = (362880::real)"
    by (simp add: fact_numeral)
  have "\<bar>sin x - (\<Sum>m<9. sin_coeff m * x ^ m)\<bar> \<le> inverse (fact 9) * \<bar>x\<bar> ^ 9"
    by (rule Maclaurin_sin_bound)
  then have "\<bar>sin x - (\<Sum>m<9. sin_coeff m * x ^ m)\<bar> \<le> inverse 362880 * \<bar>x\<bar> ^ 9"
    by (simp only: f)
  then have "\<bar>sin x - (\<Sum>m<9. sin_coeff m * x ^ m)\<bar> \<le> \<bar>x\<bar> ^ 9 / 362880"
    by (simp add: field_simps)
  then show ?thesis
    by (simp only: sin_poly9)
qed

lemma above_half:
  fixes s p b :: real
  assumes "\<bar>s - p\<bar> \<le> b" and "1 / 2 < p - b"
  shows "1 / 2 < s"
  using assms by linarith

lemma below_half:
  fixes s p b :: real
  assumes "\<bar>s - p\<bar> \<le> b" and "p + b < 1 / 2"
  shows "s < 1 / 2"
  using assms by linarith

lemma sin_at_upper: "1 / 2 < sin (0.5236::real)"
proof (rule above_half [OF sin_near_poly])
  show "(1::real) / 2 < 0.5236 - 0.5236 ^ 3 / 6 + 0.5236 ^ 5 / 120 - 0.5236 ^ 7 / 5040
          - \<bar>0.5236\<bar> ^ 9 / 362880"
    by (simp add: power_divide)
qed

lemma sin_at_lower: "sin (0.52359::real) < 1 / 2"
proof (rule below_half [OF sin_near_poly])
  show "(0.52359::real) - 0.52359 ^ 3 / 6 + 0.52359 ^ 5 / 120 - 0.52359 ^ 7 / 5040
          + \<bar>0.52359\<bar> ^ 9 / 362880 < 1 / 2"
    by (simp add: power_divide)
qed

lemma pi_upper: "pi < 3.1416"
proof (rule ccontr)
  assume "\<not> pi < 3.1416"
  then have arg: "(0.5236::real) \<le> pi / 6" by linarith
  have "sin (0.5236::real) \<le> sin (pi / 6)"
  proof (rule sin_monotone_2pi_le)
    have "- (pi / 2) \<le> 0" by simp
    also have "(0::real) \<le> 0.5236" by simp
    finally show "- (pi / 2) \<le> (0.5236::real)" .
    show "(0.5236::real) \<le> pi / 6" by (rule arg)
    show "pi / 6 \<le> pi / 2" by simp
  qed
  then have "sin (0.5236::real) \<le> 1 / 2"
    by (simp only: sin_30)
  with sin_at_upper show False by linarith
qed

lemma pi_lower: "3.14154 < pi"
proof (rule ccontr)
  assume "\<not> 3.14154 < pi"
  then have arg: "pi / 6 \<le> (0.52359::real)" by linarith
  have "sin (pi / 6) \<le> sin (0.52359::real)"
  proof (rule sin_monotone_2pi_le)
    have "- (pi / 2) \<le> 0" by simp
    also have "0 \<le> pi / 6" by simp
    finally show "- (pi / 2) \<le> pi / 6" .
    show "pi / 6 \<le> (0.52359::real)" by (rule arg)
    have "(0.52359::real) \<le> 1" by simp
    also have "1 \<le> pi / 2" using pi_ge_two by simp
    finally show "(0.52359::real) \<le> pi / 2" .
  qed
  then have "1 / 2 \<le> sin (0.52359::real)"
    by (simp only: sin_30)
  with sin_at_lower show False by linarith
qed

lemma near_rounded:
  fixes y :: real
  assumes "0.95485 < y" and "y < 0.95495"
  shows "\<bar>- y - (- 0.9549)\<bar> < 0.00005"
  unfolding abs_less_iff using assms by simp

lemma three_over_pi: "\<bar>- (3 / pi) - (- 0.9549)\<bar> < (0.00005::real)"
proof (rule near_rounded)
  show "0.95485 < 3 / pi"
    using pi_upper pi_gt_zero by (simp add: field_simps)
  show "3 / pi < 0.95495"
    using pi_lower pi_gt_zero by (simp add: field_simps)
qed

lemma initial_series_worked_scenario:
  "initial_series worked_scenario =
     \<lparr> timeOfSimulationList = [0], loadMomentList = [0], electromagneticMomentList = [0],
       adjustmentErrors = [3000], voltagesList = [0], revolutionsList = [0],
       brakingMomentList = [0.2] \<rparr>"
  by (simp add: initial_series_def worked_scenario_fields)

lemma worked_scenario_record:
  "worked_scenario =
     \<lparr> referencedRevolutionsPerMinute = 3000, timeOfSimulation = 1000, timeOfSample = 0.1,
       brakingMoment = 0.2, loadMoment = 1, momentOfInertia = 1.2,
       constantOfElectromagneticMoment = 0.4, Kp = 0.007, Ki = 0.00013, Kd = 0.0015,
       Umax = 24, Umin = 0 \<rparr>"
  by (simp add: worked_scenario_def set_sliders_def module_globals_def)

lemma worked_sample0:
  "loop_body worked_scenario (initial_series worked_scenario) 0 =
     Inr \<lparr> timeOfSimulationList = [0, 0.1], loadMomentList = [0, 1],
           electromagneticMomentList = [0, 0], adjustmentErrors = [3000, 3000],
           voltagesList = [0, 21.039], revolutionsList = [0, - (3 / pi)],
           brakingMomentList = [0.2, 0.2] \<rparr>"
proof -
  have "loop_body worked_scenario (initial_series worked_scenario) 0 =
          Inr (next_series worked_scenario (initial_series worked_scenario) 0)"
    by (rule loop_body_ok) (simp_all add: series_lengths_initial worked_scenario_fields)
  also have "next_series worked_scenario (initial_series worked_scenario) 0 =
     \<lparr> timeOfSimulationList = [0, 0.1], loadMomentList = [0, 1],
           electromagneticMomentList = [0, 0], adjustmentErrors = [3000, 3000],
           voltagesList = [0, 21.039], revolutionsList = [0, - (3 / pi)],
           brakingMomentList = [0.2, 0.2] \<rparr>"
    by (simp add: next_series_def initial_series_worked_scenario worked_first_speed
        pid_value_def calculateNormalizedVoltage_def calculateElectromagneticMoment_def
        calculateAdjustmentError_def worked_scenario_fields)
  finally show ?thesis .
qed

text \<open>
  Claim C4 (worked scenario). With referenced speed 3000, load moment 1, braking moment
  0.2, inertia 1.2, gain 0.4, \<open>Kp = 0.007\<close>, \<open>Ki = 0.00013\<close>, \<open>Kd = 0.0015\<close>,
  voltage bounds 0 and 24, sample time 0.1 and the seeds error 3000, speed 0 and voltage
  0, sample 0 computes the raw voltage \<open>21.039\<close>, which the clamp leaves unchanged;
  the torque \<open>0\<close>, from the seed voltage; the new speed \<open>convertToRevolutionsPerMinute
  (- 0.1) = - 3 / pi\<close>, within \<open>0.00005\<close> of \<open>- 0.9549\<close>; and the error
  \<open>3000 - 0 = 3000\<close>, from the seed speed. The same values are entries 0 and 1 of the
  series of the full run with the initial slider values.
\<close>

theorem C4_worked_scenario:
  "worked_scenario =
     \<lparr> referencedRevolutionsPerMinute = 3000, timeOfSimulation = 1000, timeOfSample = 0.1,
       brakingMoment = 0.2, loadMoment = 1, momentOfInertia = 1.2,
       constantOfElectromagneticMoment = 0.4, Kp = 0.007, Ki = 0.00013, Kd = 0.0015,
       Umax = 24, Umin = 0 \<rparr> \<and>
   adjustmentErrors (initial_series worked_scenario) = [3000] \<and>
   revolutionsList (initial_series worked_scenario) = [0] \<and>
   voltagesList (initial_series worked_scenario) = [0] \<and>
   calculateVoltageOfRegulator worked_scenario [3000] 0 = Inr 21.039 \<and>
   calculateNormalizedVoltage worked_scenario 21.039 = 21.039 \<and>
   calculateElectromagneticMoment (constantOfElectromagneticMoment worked_scenario) 0 = 0 \<and>
   calculateRevolutions worked_scenario 0 0 = Inr (convertToRevolutionsPerMinute (- 0.1)) \<and>
   convertToRevolutionsPerMinute (- 0.1) = - (3 / pi) \<and>
   \<bar>convertToRevolutionsPerMinute (- 0.1) - (- 0.9549)\<bar> < 0.00005 \<and>
   calculateAdjustmentError 3000 0 = 3000 \<and>
   loop_body worked_scenario (initial_series worked_scenario) 0 =
     Inr \<lparr> timeOfSimulationList = [0, 0.1], loadMomentList = [0, 1],
           electromagneticMomentList = [0, 0], adjustmentErrors = [3000, 3000],
           voltagesList = [0, 21.039],
           revolutionsList = [0, convertToRevolutionsPerMinute (- 0.1)],
           brakingMomentList = [0.2, 0.2] \<rparr> \<and>
   (\<exists>s. updateGraphs module_globals 1 3000 0.007 0.00013 0.0015 = Inr (worked_scenario, s) \<and>
        voltagesList s ! 0 = 0 \<and> voltagesList s ! 1 = 21.039 \<and>
        electromagneticMomentList s ! 1 = 0 \<and>
        revolutionsList s ! 0 = 0 \<and>
        revolutionsList s ! 1 = convertToRevolutionsPerMinute (- 0.1) \<and>
        adjustmentErrors s ! 0 = 3000 \<and> adjustmentErrors s ! 1 = 3000)"
proof -
  have rpm: "convertToRevolutionsPerMinute (- 0.1) = - (3 / pi)"
    by (simp add: convertToRevolutionsPerMinute_def)
  have near: "\<bar>convertToRevolutionsPerMinute (- 0.1) - (- 0.9549)\<bar> < 0.00005"
    using three_over_pi by (simp only: rpm)
  have seeds: "adjustmentErrors (initial_series worked_scenario) = [3000]"
    "revolutionsList (initial_series worked_scenario) = [0]"
    "voltagesList (initial_series worked_scenario) = [0]"
    by (simp_all add: initial_series_worked_scenario)
  have raw: "calculateVoltageOfRegulator worked_scenario [3000] 0 = Inr 21.039"
    using pid_law [of 0 "[3000]" worked_scenario] by (simp add: worked_scenario_fields)
  have clamp: "calculateNormalizedVoltage worked_scenario 21.039 = 21.039"
    by (simp add: calculateNormalizedVoltage_def worked_scenario_fields)
  have torque: "calculateElectromagneticMoment (constantOfElectromagneticMoment worked_scenario) 0 = 0"
    by (simp add: calculateElectromagneticMoment_def)
  have speed: "calculateRevolutions worked_scenario 0 0 = Inr (convertToRevolutionsPerMinute (- 0.1))"
    by (simp add: calculateRevolutions_def py_truediv_def convertToAngularVelocity_def
        worked_scenario_fields)
  have err: "calculateAdjustmentError 3000 0 = 3000"
    by (simp add: calculateAdjustmentError_def)
  have body: "loop_body worked_scenario (initial_series worked_scenario) 0 =
     Inr \<lparr> timeOfSimulationList = [0, 0.1], loadMomentList = [0, 1],
           electromagneticMomentList = [0, 0], adjustmentErrors = [3000, 3000],
           voltagesList = [0, 21.039],
           revolutionsList = [0, convertToRevolutionsPerMinute (- 0.1)],
           brakingMomentList = [0.2, 0.2] \<rparr>"
    using worked_sample0 by (simp only: rpm)
  obtain s where
    run: "updateGraphs module_globals 1 3000 0.007 0.00013 0.0015 = Inr (worked_scenario, s)"
    and loop: "for_range worked_scenario 10000 (initial_series worked_scenario) = Inr s"
    using default_run by blast
  have T: "timeOfSample worked_scenario \<noteq> 0"
    by (simp add: worked_scenario_fields)
  have len: "length (adjustmentErrors s) = 10001"
    using for_range_lengths [OF loop T] by (simp add: series_lengths_def)
  note s0 = default_run_sample0 [OF loop]
  have tk: "take (Suc 0) (adjustmentErrors s) = [3000]"
    using s0(1) len by (cases "adjustmentErrors s") simp_all
  have "voltagesList s ! Suc 0 =
          calculateNormalizedVoltage worked_scenario
            (pid_value worked_scenario (take (Suc 0) (adjustmentErrors s)) 0)"
    by (rule for_range_sample(2) [OF loop T]) simp
  then have v1: "voltagesList s ! 1 = 21.039"
    by (simp add: tk pid_value_def calculateNormalizedVoltage_def worked_scenario_fields)
  have r1: "revolutionsList s ! 1 = convertToRevolutionsPerMinute (- 0.1)"
    using s0(4) by (simp only: rpm)
  have full: "\<exists>s. updateGraphs module_globals 1 3000 0.007 0.00013 0.0015 = Inr (worked_scenario, s) \<and>
        voltagesList s ! 0 = 0 \<and> voltagesList s ! 1 = 21.039 \<and>
        electromagneticMomentList s ! 1 = 0 \<and>
        revolutionsList s ! 0 = 0 \<and>
        revolutionsList s ! 1 = convertToRevolutionsPerMinute (- 0.1) \<and>
        adjustmentErrors s ! 0 = 3000 \<and> adjustmentErrors s ! 1 = 3000"
    using run s0(1,2,3,5,7) v1 r1 by blast
  show ?thesis
    by (intro conjI worked_scenario_record seeds raw clamp torque speed rpm near err body full)
qed

end
